theory Spec2Isabelle
  imports Main
begin

section \<open>The PostgreSQL store of user settings\<close>

text \<open>
  The driver file of package \<open>postgres\<close> builds its statements with the squirrel query
  builder and hands them to \<open>database/sql\<close>. The model keeps the statement as the value
  the builder was given (table, columns, arguments, suffix, conditions) and gives the
  database the meaning PostgreSQL gives it on the one table the file touches.
\<close>

subsection \<open>Errors\<close>

datatype error =
    errors_New string
  | pq_unique_violation
  | pq_syntax_error
  | driver_error string
  | protojson_error string

subsection \<open>Statements and the database\<close>

datatype sql_arg = SqlInt int | SqlText string

datatype sql_cond = Raw string | Eq string sql_arg

datatype statement =
    Insert string "string list" "sql_arg list" string
  | Select "string list" string "sql_cond list"

record user_setting_row =
  col_user_id :: int
  col_key :: string
  col_value :: string

text \<open>
  The database holds the rows of \<open>user_setting\<close> and the failure, if any, its connection
  is in: a statement sent over a failed connection returns that failure and changes
  nothing. The primary key of \<open>user_setting\<close> is \<open>(user_id, key)\<close>, as the comment in
  \<open>UpsertUserSetting\<close> says and the conflict target of \<open>UpsertUserSettingV1\<close> requires.
\<close>

record DB =
  user_setting :: "user_setting_row list"
  failure :: "string option"

definition same_pk :: "user_setting_row \<Rightarrow> user_setting_row \<Rightarrow> bool" where
  "same_pk r s = (col_user_id r = col_user_id s \<and> col_key r = col_key s)"

definition has_pk :: "user_setting_row list \<Rightarrow> user_setting_row \<Rightarrow> bool" where
  "has_pk rows r = (filter (same_pk r) rows \<noteq> [])"

definition on_conflict_update :: string where
  "on_conflict_update = ''ON CONFLICT (user_id, key) DO UPDATE SET value = EXCLUDED.value''"

definition insert_row :: "user_setting_row list \<Rightarrow> user_setting_row \<Rightarrow> string
    \<Rightarrow> error + user_setting_row list" where
  "insert_row rows r suffix =
     (if suffix = [] then
        (if has_pk rows r then Inl pq_unique_violation else Inr (rows @ [r]))
      else if suffix = on_conflict_update then
        (if has_pk rows r
         then Inr (map (\<lambda>s. if same_pk r s then s\<lparr>col_value := col_value r\<rparr> else s) rows)
         else Inr (rows @ [r]))
      else Inl pq_syntax_error)"

fun ExecContext :: "DB \<Rightarrow> statement \<Rightarrow> error + DB" where
  "ExecContext d (Insert tbl cols args suffix) =
     (case failure d of
        Some f \<Rightarrow> Inl (driver_error f)
      | None \<Rightarrow>
          (if tbl = ''user_setting'' \<and> cols = [''user_id'', ''key'', ''value''] then
             (case args of
                [SqlInt u, SqlText k, SqlText v] \<Rightarrow>
                  (case insert_row (user_setting d)
                          \<lparr>col_user_id = u, col_key = k, col_value = v\<rparr> suffix of
                     Inl e \<Rightarrow> Inl e
                   | Inr rows \<Rightarrow> Inr (d\<lparr>user_setting := rows\<rparr>))
              | _ \<Rightarrow> Inl pq_syntax_error)
           else Inl pq_syntax_error))"
| "ExecContext d (Select cols tbl conds) = Inl pq_syntax_error"

fun holds :: "sql_cond \<Rightarrow> user_setting_row \<Rightarrow> bool" where
  "holds (Raw s) r = (s = ''1 = 1'')"
| "holds (Eq c (SqlText v)) r = (c = ''key'' \<and> col_key r = v)"
| "holds (Eq c (SqlInt v)) r = (c = ''user_id'' \<and> col_user_id r = v)"

text \<open>
  A query returns the rows that satisfy every condition, in the order the table holds
  them (the statements of this file have no ORDER BY, and nothing below depends on the
  order). The scan of the three typed columns of a row does not fail, and a failure of
  the connection is the failure of the query.
\<close>

fun QueryContext :: "DB \<Rightarrow> statement \<Rightarrow> error + user_setting_row list" where
  "QueryContext d (Select cols tbl conds) =
     (case failure d of
        Some f \<Rightarrow> Inl (driver_error f)
      | None \<Rightarrow>
          (if tbl = ''user_setting'' \<and> cols = [''user_id'', ''key'', ''value'']
           then Inr (filter (\<lambda>r. list_all (\<lambda>c. holds c r) conds) (user_setting d))
           else Inl pq_syntax_error))"
| "QueryContext d (Insert tbl cols args suffix) = Inl pq_syntax_error"

subsection \<open>store.UserSetting: \<open>UpsertUserSetting\<close> and \<open>ListUserSettings\<close>\<close>

record UserSetting =
  us_UserID :: int
  us_Key :: string
  us_Value :: string

record FindUserSetting =
  fus_Key :: string
  fus_UserID :: "int option"

text \<open>
  \<open>UpsertUserSetting\<close> sends a plain INSERT: the builder is given no suffix
  (\<open>// no need to specify ON CONFLICT clause, as the primary key is (user_id, key)\<close>).
  The result is the error or the setting it was given, with the database after the call.
\<close>

definition UpsertUserSetting :: "DB \<Rightarrow> UserSetting \<Rightarrow> (error + UserSetting) \<times> DB" where
  "UpsertUserSetting d upsert =
     (case ExecContext d
             (Insert ''user_setting'' [''user_id'', ''key'', ''value'']
                [SqlInt (us_UserID upsert), SqlText (us_Key upsert), SqlText (us_Value upsert)]
                [])
      of Inl err \<Rightarrow> (Inl err, d)
       | Inr d' \<Rightarrow> (Inr upsert, d'))"

definition ListUserSettings :: "DB \<Rightarrow> FindUserSetting \<Rightarrow> error + UserSetting list" where
  "ListUserSettings d fnd =
     (let qb = [Raw ''1 = 1''];
          qb = (if fus_Key fnd \<noteq> [] then qb @ [Eq ''key'' (SqlText (fus_Key fnd))] else qb);
          qb = (case fus_UserID fnd of
                  Some v \<Rightarrow> qb @ [Eq ''user_id'' (SqlInt v)]
                | None \<Rightarrow> qb)
      in case QueryContext d (Select [''user_id'', ''key'', ''value''] ''user_setting'' qb) of
           Inl err \<Rightarrow> Inl err
         | Inr rows \<Rightarrow>
             Inr (map (\<lambda>r. \<lparr>us_UserID = col_user_id r, us_Key = col_key r,
                             us_Value = col_value r\<rparr>) rows))"

subsection \<open>storepb.UserSetting: \<open>UpsertUserSettingV1\<close> and \<open>ListUserSettingsV1\<close>\<close>

text \<open>
  The generated package \<open>storepb\<close> and the \<open>protojson\<close> codec are not part of the
  driver file. What the file uses of them is a parameter of the model: the two enum
  constants it names, \<open>Key.String()\<close>, the conversion
  \<open>UserSettingKey(UserSettingKey_value[name])\<close> of a stored name, and the codec of the
  access-token message (of type \<open>'a\<close>; the enum has type \<open>'k\<close>).
\<close>

record ('k, 'a) storepb =
  USER_SETTING_KEY_UNSPECIFIED :: 'k
  USER_SETTING_ACCESS_TOKENS :: 'k
  UserSettingKey_String :: "'k \<Rightarrow> string"
  UserSettingKey_value :: "string \<Rightarrow> 'k"
  protojson_Marshal :: "'a option \<Rightarrow> error + string"
  protojson_Unmarshal :: "string \<Rightarrow> error + 'a"

datatype 'a isUserSetting_Value = UserSetting_AccessTokens 'a

record ('k, 'a) UserSettingV1 =
  pb_UserId :: int
  pb_Key :: 'k
  pb_Value :: "'a isUserSetting_Value option"

record 'k FindUserSettingV1 =
  fv1_Key :: 'k
  fv1_UserID :: "int option"

fun GetAccessTokens :: "('k, 'a) UserSettingV1 \<Rightarrow> 'a option" where
  "GetAccessTokens x =
     (case pb_Value x of
        Some (UserSetting_AccessTokens a) \<Rightarrow> Some a
      | None \<Rightarrow> None)"

definition UpsertUserSettingV1 ::
  "('k, 'a) storepb \<Rightarrow> DB \<Rightarrow> ('k, 'a) UserSettingV1
     \<Rightarrow> (error + ('k, 'a) UserSettingV1) \<times> DB" where
  "UpsertUserSettingV1 pb d upsert =
     (if pb_Key upsert = USER_SETTING_ACCESS_TOKENS pb then
        (case protojson_Marshal pb (GetAccessTokens upsert) of
           Inl err \<Rightarrow> (Inl err, d)
         | Inr valueString \<Rightarrow>
             (case ExecContext d
                     (Insert ''user_setting'' [''user_id'', ''key'', ''value'']
                        [SqlInt (pb_UserId upsert),
                         SqlText (UserSettingKey_String pb (pb_Key upsert)),
                         SqlText valueString]
                        on_conflict_update)
              of Inl err \<Rightarrow> (Inl err, d)
               | Inr d' \<Rightarrow> (Inr upsert, d')))
      else (Inl (errors_New ''invalid user setting key''), d))"

text \<open>
  The loop over the rows of \<open>ListUserSettingsV1\<close>: \<open>acc\<close> is \<open>userSettingList\<close>. A row
  whose key is not the access-token key is skipped (\<open>continue\<close>); a value that does not
  unmarshal ends the loop with the error.
\<close>

fun scan_rows_V1 ::
  "('k, 'a) storepb \<Rightarrow> user_setting_row list \<Rightarrow> ('k, 'a) UserSettingV1 list
     \<Rightarrow> error + ('k, 'a) UserSettingV1 list" where
  "scan_rows_V1 pb [] acc = Inr acc"
| "scan_rows_V1 pb (r # rows) acc =
     (let key = UserSettingKey_value pb (col_key r) in
      if key = USER_SETTING_ACCESS_TOKENS pb then
        (case protojson_Unmarshal pb (col_value r) of
           Inl err \<Rightarrow> Inl err
         | Inr accessTokensUserSetting \<Rightarrow>
             scan_rows_V1 pb rows
               (acc @ [\<lparr>pb_UserId = col_user_id r, pb_Key = key,
                         pb_Value = Some (UserSetting_AccessTokens accessTokensUserSetting)\<rparr>]))
      else scan_rows_V1 pb rows acc)"

definition ListUserSettingsV1 ::
  "('k, 'a) storepb \<Rightarrow> DB \<Rightarrow> 'k FindUserSettingV1
     \<Rightarrow> error + ('k, 'a) UserSettingV1 list" where
  "ListUserSettingsV1 pb d fnd =
     (let qb = [];
          qb = (if fv1_Key fnd \<noteq> USER_SETTING_KEY_UNSPECIFIED pb
                then qb @ [Eq ''key'' (SqlText (UserSettingKey_String pb (fv1_Key fnd)))]
                else qb);
          qb = (case fv1_UserID fnd of
                  Some v \<Rightarrow> qb @ [Eq ''user_id'' (SqlInt v)]
                | None \<Rightarrow> qb)
      in case QueryContext d (Select [''user_id'', ''key'', ''value''] ''user_setting'' qb) of
           Inl err \<Rightarrow> Inl err
         | Inr rows \<Rightarrow> scan_rows_V1 pb rows [])"

section \<open>The gateway of MarkdownService\<close>

text \<open>
  The generated file \<open>markdown_service.pb.gw.go\<close> translates HTTP requests into calls of
  the four methods of MarkdownService. The messages, the marshaler, the form parser and
  the context annotation belong to generated or library code outside the file; the model
  takes them as parameters (a message has type \<open>'m\<close>) and follows the file in what it does
  with them. Every function returns, beside its result, the list of calls it made to the
  service, in order.
\<close>

subsection \<open>Errors, requests and the parameters\<close>

type_synonym Code = nat

definition InvalidArgument :: Code where
  "InvalidArgument = 3"

datatype gw_error =
    io_EOF
  | other_error string
  | wrap_error string gw_error
  | status_Errorf Code gw_error

text \<open>\<open>errors.Is(err, io.EOF)\<close>: the error is \<open>io.EOF\<close> or wraps it.\<close>

fun errors_Is_EOF :: "gw_error \<Rightarrow> bool" where
  "errors_Is_EOF io_EOF = True"
| "errors_Is_EOF (wrap_error s e) = errors_Is_EOF e"
| "errors_Is_EOF (other_error s) = False"
| "errors_Is_EOF (status_Errorf c e) = False"

type_synonym MD = "string \<Rightarrow> string list"

record ServerMetadata =
  HeaderMD :: MD
  TrailerMD :: MD

definition no_metadata :: ServerMetadata where
  "no_metadata = \<lparr>HeaderMD = (\<lambda>k. []), TrailerMD = (\<lambda>k. [])\<rparr>"

definition metadata_Join :: "MD \<Rightarrow> MD \<Rightarrow> MD" where
  "metadata_Join a b = (\<lambda>k. a k @ b k)"

type_synonym Values = "(string \<times> string list) list"

record Request =
  Method :: string
  URL_Path :: string
  URL_RawQuery :: string
  Body :: string

record DoubleArray =
  Encoding :: "(string \<times> int) list"
  Base :: "int list"
  Check :: "int list"

datatype rpc = ParseMarkdown | RestoreMarkdownNodes | StringifyMarkdownNodes | GetLinkMetadata

text \<open>
  The parameters: the zero value of each request message (\<open>var protoReq T\<close>), the
  marshaler's decoder (the error and the message as the decoder leaves it), the request's
  form parser, the query-parameter populator, and the two context annotations.
\<close>

record 'm runtime =
  ParseMarkdownRequest :: 'm
  RestoreMarkdownNodesRequest :: 'm
  StringifyMarkdownNodesRequest :: 'm
  GetLinkMetadataRequest :: 'm
  Decode :: "string \<Rightarrow> 'm \<Rightarrow> gw_error option \<times> 'm"
  ParseForm :: "Request \<Rightarrow> gw_error + Values"
  PopulateQueryParameters :: "'m \<Rightarrow> Values \<Rightarrow> DoubleArray \<Rightarrow> gw_error option \<times> 'm"
  AnnotateContext :: "Request \<Rightarrow> string \<Rightarrow> string \<Rightarrow> gw_error option"
  AnnotateIncomingContext :: "Request \<Rightarrow> string \<Rightarrow> string \<Rightarrow> gw_error option"


type_synonym 'm MarkdownServiceServer = "rpc \<Rightarrow> 'm \<Rightarrow> (gw_error + 'm) \<times> ServerMetadata"

type_synonym 'm calls = "(rpc \<times> 'm) list"

type_synonym 'm reply = "'m option \<times> ServerMetadata \<times> gw_error option"

fun msg_of :: "gw_error + 'm \<Rightarrow> 'm option" where
  "msg_of (Inl e) = None"
| "msg_of (Inr m) = Some m"

fun err_of :: "gw_error + 'm \<Rightarrow> gw_error option" where
  "err_of (Inl e) = Some e"
| "err_of (Inr m) = None"


text \<open>\<open>msg, err := server.M(ctx, &protoReq); return msg, metadata, err\<close>, and the stream.\<close>

definition server_call ::
  "'m MarkdownServiceServer \<Rightarrow> rpc \<Rightarrow> 'm \<Rightarrow> ('m reply \<times> ServerMetadata) \<times> 'm calls" where
  "server_call server m protoReq =
     (let (r, stream) = server m protoReq
      in (((msg_of r, no_metadata, err_of r), stream), [(m, protoReq)]))"

subsection \<open>The request functions\<close>


definition local_request_MarkdownService_ParseMarkdown_0 ::
  "'m runtime \<Rightarrow> 'm MarkdownServiceServer \<Rightarrow> Request
     \<Rightarrow> ('m reply \<times> ServerMetadata) \<times> 'm calls" where
  "local_request_MarkdownService_ParseMarkdown_0 rt server req =
     (let metadata = no_metadata;
          (err, protoReq) = Decode rt (Body req) (ParseMarkdownRequest rt)
      in case err of
           Some e \<Rightarrow>
             (if \<not> errors_Is_EOF e
              then (((None, metadata, Some (status_Errorf InvalidArgument e)), no_metadata), [])
              else server_call server ParseMarkdown protoReq)
         | None \<Rightarrow> server_call server ParseMarkdown protoReq)"


definition local_request_MarkdownService_RestoreMarkdownNodes_0 ::
  "'m runtime \<Rightarrow> 'm MarkdownServiceServer \<Rightarrow> Request
     \<Rightarrow> ('m reply \<times> ServerMetadata) \<times> 'm calls" where
  "local_request_MarkdownService_RestoreMarkdownNodes_0 rt server req =
     (let metadata = no_metadata;
          (err, protoReq) = Decode rt (Body req) (RestoreMarkdownNodesRequest rt)
      in case err of
           Some e \<Rightarrow>
             (if \<not> errors_Is_EOF e
              then (((None, metadata, Some (status_Errorf InvalidArgument e)), no_metadata), [])
              else server_call server RestoreMarkdownNodes protoReq)
         | None \<Rightarrow> server_call server RestoreMarkdownNodes protoReq)"


definition local_request_MarkdownService_StringifyMarkdownNodes_0 ::
  "'m runtime \<Rightarrow> 'm MarkdownServiceServer \<Rightarrow> Request
     \<Rightarrow> ('m reply \<times> ServerMetadata) \<times> 'm calls" where
  "local_request_MarkdownService_StringifyMarkdownNodes_0 rt server req =
     (let metadata = no_metadata;
          (err, protoReq) = Decode rt (Body req) (StringifyMarkdownNodesRequest rt)
      in case err of
           Some e \<Rightarrow>
             (if \<not> errors_Is_EOF e
              then (((None, metadata, Some (status_Errorf InvalidArgument e)), no_metadata), [])
              else server_call server StringifyMarkdownNodes protoReq)
         | None \<Rightarrow> server_call server StringifyMarkdownNodes protoReq)"

text \<open>
  \<open>GetLinkMetadata\<close> takes its message from the request's form. The client variant
  drains the body first (\<open>io.Copy(io.Discard, req.Body)\<close>).
\<close>

definition filter_MarkdownService_GetLinkMetadata_0 :: DoubleArray where
  "filter_MarkdownService_GetLinkMetadata_0 = \<lparr>Encoding = [], Base = [], Check = []\<rparr>"


definition local_request_MarkdownService_GetLinkMetadata_0 ::
  "'m runtime \<Rightarrow> 'm MarkdownServiceServer \<Rightarrow> Request
     \<Rightarrow> ('m reply \<times> ServerMetadata) \<times> 'm calls" where
  "local_request_MarkdownService_GetLinkMetadata_0 rt server req =
     (let metadata = no_metadata
      in case ParseForm rt req of
           Inl err \<Rightarrow>
             (((None, metadata, Some (status_Errorf InvalidArgument err)), no_metadata), [])
         | Inr form \<Rightarrow>
             (case PopulateQueryParameters rt (GetLinkMetadataRequest rt) form
                     filter_MarkdownService_GetLinkMetadata_0 of
                (Some err, protoReq) \<Rightarrow>
                  (((None, metadata, Some (status_Errorf InvalidArgument err)), no_metadata), [])
              | (None, protoReq) \<Rightarrow> server_call server GetLinkMetadata protoReq))"

subsection \<open>Path patterns\<close>

text \<open>
  A pattern is a program for the runtime's matcher: a list of (opcode, operand) pairs
  over a pool of literals, and a verb. The four patterns of the file use one opcode,
  \<open>OpLitPush\<close> (2), which pushes the literal \<open>pool[operand]\<close>; the model of
  \<open>NewPattern\<close>, of the pattern's rendering and of its matcher covers that opcode, and
  \<open>NewPattern\<close> answers \<open>ErrInvalidPattern\<close> to a version other than 1, an odd number of
  integers, another opcode or an operand outside the pool.
\<close>

definition OpLitPush :: int where
  "OpLitPush = 2"

record Pattern =
  pat_ops :: "(int \<times> nat) list"
  pat_pool :: "string list"
  pat_verb :: string

datatype pattern_error = ErrInvalidPattern

fun typed_ops :: "int list \<Rightarrow> nat \<Rightarrow> (int \<times> nat) list option" where
  "typed_ops [] n = Some []"
| "typed_ops [c] n = None"
| "typed_ops (c # operand # rest) n =
     (if c = OpLitPush \<and> 0 \<le> operand \<and> nat operand < n
      then (case typed_ops rest n of
              None \<Rightarrow> None
            | Some ops \<Rightarrow> Some ((c, nat operand) # ops))
      else None)"

definition NewPattern :: "int \<Rightarrow> int list \<Rightarrow> string list \<Rightarrow> string \<Rightarrow> pattern_error + Pattern" where
  "NewPattern version ops pool verb =
     (if version \<noteq> 1 then Inl ErrInvalidPattern
      else case typed_ops ops (length pool) of
             None \<Rightarrow> Inl ErrInvalidPattern
           | Some tops \<Rightarrow> Inr \<lparr>pat_ops = tops, pat_pool = pool, pat_verb = verb\<rparr>)"

text \<open>\<open>MustPattern\<close> panics on an error: \<open>None\<close> is the panic.\<close>

fun MustPattern :: "pattern_error + Pattern \<Rightarrow> Pattern option" where
  "MustPattern (Inl e) = None"
| "MustPattern (Inr p) = Some p"

fun strings_Join :: "string list \<Rightarrow> string \<Rightarrow> string" where
  "strings_Join [] sep = []"
| "strings_Join [x] sep = x"
| "strings_Join (x # y # zs) sep = x @ sep @ strings_Join (y # zs) sep"

text \<open>The stack the opcodes build; \<open>None\<close> is an operand outside the pool.\<close>

fun lit_stack :: "(int \<times> nat) list \<Rightarrow> string list \<Rightarrow> string list option" where
  "lit_stack [] pool = Some []"
| "lit_stack ((c, operand) # ops) pool =
     (if operand < length pool
      then (case lit_stack ops pool of
              None \<Rightarrow> None
            | Some stack \<Rightarrow> Some (pool ! operand # stack))
      else None)"

definition Pattern_String :: "Pattern \<Rightarrow> string option" where
  "Pattern_String p =
     (case lit_stack (pat_ops p) (pat_pool p) of
        None \<Rightarrow> None
      | Some stack \<Rightarrow>
          (let segs = strings_Join stack ''/''
           in if pat_verb p \<noteq> [] then Some (''/'' @ segs @ '':'' @ pat_verb p)
              else Some (''/'' @ segs)))"



definition pattern_MarkdownService_ParseMarkdown_0 :: "Pattern option" where
  "pattern_MarkdownService_ParseMarkdown_0 =
     MustPattern (NewPattern 1 [2, 0, 2, 1, 2, 2] [''api'', ''v1'', ''markdown''] ''parse'')"

definition pattern_MarkdownService_RestoreMarkdownNodes_0 :: "Pattern option" where
  "pattern_MarkdownService_RestoreMarkdownNodes_0 =
     MustPattern (NewPattern 1 [2, 0, 2, 1, 2, 2, 2, 3]
                    [''api'', ''v1'', ''markdown'', ''node''] ''restore'')"

definition pattern_MarkdownService_StringifyMarkdownNodes_0 :: "Pattern option" where
  "pattern_MarkdownService_StringifyMarkdownNodes_0 =
     MustPattern (NewPattern 1 [2, 0, 2, 1, 2, 2, 2, 3]
                    [''api'', ''v1'', ''markdown'', ''node''] ''stringify'')"

definition pattern_MarkdownService_GetLinkMetadata_0 :: "Pattern option" where
  "pattern_MarkdownService_GetLinkMetadata_0 =
     MustPattern (NewPattern 1 [2, 0, 2, 1, 2, 2, 2, 3]
                    [''api'', ''v1'', ''markdown'', ''link''] ''metadata'')"

subsection \<open>Registration\<close>

text \<open>
  What a handler does with the request: it reports the error (\<open>runtime.HTTPError\<close>) or
  forwards the response (\<open>runtime.ForwardResponseMessage\<close>), under the metadata of the
  context at that point.
\<close>

datatype 'm response =
    HTTPError ServerMetadata gw_error
  | ForwardResponseMessage ServerMetadata "'m option"

record 'm handler =
  h_meth :: string
  h_pat :: Pattern
  h_fn :: "Request \<Rightarrow> 'm response \<times> 'm calls"

type_synonym 'm ServeMux = "'m handler list"

definition Handle ::
  "'m ServeMux \<Rightarrow> string \<Rightarrow> Pattern \<Rightarrow> (Request \<Rightarrow> 'm response \<times> 'm calls) \<Rightarrow> 'm ServeMux" where
  "Handle mux meth pat h = mux @ [\<lparr>h_meth = meth, h_pat = pat, h_fn = h\<rparr>]"

definition http_MethodPost :: string where
  "http_MethodPost = ''POST''"

definition http_MethodGet :: string where
  "http_MethodGet = ''GET''"


text \<open>
  The body the four handlers of \<open>RegisterMarkdownServiceHandlerServer\<close> share; the
  metadata is joined with what the service wrote to the transport stream.
\<close>

definition server_handler ::
  "'m runtime \<Rightarrow> string \<Rightarrow> string \<Rightarrow> (Request \<Rightarrow> ('m reply \<times> ServerMetadata) \<times> 'm calls)
     \<Rightarrow> Request \<Rightarrow> 'm response \<times> 'm calls" where
  "server_handler rt rpcMethodName pathPattern local_request req =
     (case AnnotateIncomingContext rt req rpcMethodName pathPattern of
        Some err \<Rightarrow> (HTTPError no_metadata err, [])
      | None \<Rightarrow>
          (let (((resp, md, err), stream), calls) = local_request req;
               md = \<lparr>HeaderMD = metadata_Join (HeaderMD md) (HeaderMD stream),
                     TrailerMD = metadata_Join (TrailerMD md) (TrailerMD stream)\<rparr>
           in case err of
                Some e \<Rightarrow> (HTTPError md e, calls)
              | None \<Rightarrow> (ForwardResponseMessage md resp, calls)))"


definition RegisterMarkdownServiceHandlerServer ::
  "'m runtime \<Rightarrow> 'm ServeMux \<Rightarrow> 'm MarkdownServiceServer \<Rightarrow> 'm ServeMux option" where
  "RegisterMarkdownServiceHandlerServer rt mux server =
     (case (pattern_MarkdownService_ParseMarkdown_0,
            pattern_MarkdownService_RestoreMarkdownNodes_0,
            pattern_MarkdownService_StringifyMarkdownNodes_0,
            pattern_MarkdownService_GetLinkMetadata_0) of
        (Some p1, Some p2, Some p3, Some p4) \<Rightarrow>
          (let mux = Handle mux http_MethodPost p1
                 (server_handler rt ''/memos.api.v1.MarkdownService/ParseMarkdown''
                    ''/api/v1/markdown:parse''
                    (local_request_MarkdownService_ParseMarkdown_0 rt server));
               mux = Handle mux http_MethodPost p2
                 (server_handler rt ''/memos.api.v1.MarkdownService/RestoreMarkdownNodes''
                    ''/api/v1/markdown/node:restore''
                    (local_request_MarkdownService_RestoreMarkdownNodes_0 rt server));
               mux = Handle mux http_MethodPost p3
                 (server_handler rt ''/memos.api.v1.MarkdownService/StringifyMarkdownNodes''
                    ''/api/v1/markdown/node:stringify''
                    (local_request_MarkdownService_StringifyMarkdownNodes_0 rt server));
               mux = Handle mux http_MethodGet p4
                 (server_handler rt ''/memos.api.v1.MarkdownService/GetLinkMetadata''
                    ''/api/v1/markdown/link:metadata''
                    (local_request_MarkdownService_GetLinkMetadata_0 rt server))
           in Some mux)
      | _ \<Rightarrow> None)"

section \<open>The restorer of the markdown engine\<close>

text \<open>
  The markdown engine (parser, stringifier, restorer, link resolver) is not among the
  source files: the gateway above only forwards to it. The restorer is modelled here
  from the specification, sections 3 and 4.5.
\<close>

subsection \<open>Nodes\<close>

text \<open>
  Modelled from the spec: the kinds of the engine's nodes (section 3), the block kinds
  and then the inline kinds. A node is a tagged variant over them; the model keeps the
  fields of a node as a list of named values, so that a client-submitted node can lack a
  field its kind requires.
\<close>

datatype kind =
    Document | Paragraph | Heading | CodeBlock | BlockQuote | ListOrdered | ListUnordered
  | ListItem | ThematicBreak | Table | TableRow | TableCell
  | Text | Emphasis | Strong | InlineCode | Link | Image | Autolink | LineBreak | Escape

text \<open>
  Modelled from the spec: the names of the fields section 3 and section 4.5 give the
  kinds (a heading's level, a code block's language and literal text, a link's
  destination and title, an image's alt text, an autolink's URL, whether a line break is
  hard, a table's column count).
\<close>

datatype field = Level | Language | Literal | Destination | Title | Alt | Url | Hard | Columns

text \<open>Modelled from the spec: the values of those fields, numbers, texts and flags.\<close>

datatype fval = Num nat | Str string | Flag bool

text \<open>
  Modelled from the spec: a node (section 3), its kind, its fields, its optional stable
  identifier and its children in order.
\<close>

datatype node =
  Node (kind: kind) (node_fields: "(field \<times> fval) list") (ident: "nat option")
       (children: "node list")

text \<open>
  Modelled from the spec: the inline kinds of section 3, \<open>{Text, Emphasis, Strong,
  InlineCode, Link, Image, Autolink, LineBreak, Escape}\<close>; every other kind is a block
  kind.
\<close>

definition is_inline :: "kind \<Rightarrow> bool" where
  "is_inline k =
     (k \<in> set [Text, Emphasis, Strong, InlineCode, Link, Image, Autolink, LineBreak, Escape])"

text \<open>
  Modelled from the spec: the fields section 3 gives each kind, \<open>Heading(level)\<close>,
  \<open>CodeBlock(language, literal text)\<close>, \<open>Text(literal)\<close>, \<open>InlineCode(literal)\<close>,
  \<open>Link(destination URL, title)\<close>, \<open>Image(destination URL, alt text)\<close>,
  \<open>Autolink(URL)\<close>, \<open>LineBreak(hard/soft)\<close>; these are the fields a node of the kind is
  required to have. A table's column count is computed from its children and is not in
  the list.
\<close>

fun required_fields :: "kind \<Rightarrow> field list" where
  "required_fields Heading = [Level]"
| "required_fields CodeBlock = [Language, Literal]"
| "required_fields Text = [Literal]"
| "required_fields InlineCode = [Literal]"
| "required_fields Link = [Destination, Title]"
| "required_fields Image = [Destination, Alt]"
| "required_fields Autolink = [Url]"
| "required_fields LineBreak = [Hard]"
| "required_fields k = []"

text \<open>
  Modelled from the spec: the kind-specific default of a required field (section 4.5).
  The spec fixes one default, level 1 for a heading; the defaults of the other fields
  are the parameter \<open>dflt\<close>.
\<close>

definition default_value :: "(kind \<Rightarrow> field \<Rightarrow> fval) \<Rightarrow> kind \<Rightarrow> field \<Rightarrow> fval" where
  "default_value dflt k f = (if k = Heading \<and> f = Level then Num 1 else dflt k f)"

subsection \<open>Results and warnings\<close>

text \<open>
  Modelled from the spec: the non-fatal warnings of a restore, one kind of warning for
  each of the two normalizations of section 4.5.
\<close>

datatype warning = ImplicitParagraph kind | DefaultFilled kind field

text \<open>Modelled from the spec: \<open>Result{Node Tree, warnings}\<close> (sections 3 and 4.5).\<close>

record result =
  tree :: node
  warnings :: "warning list"

subsection \<open>The normalization pass\<close>

text \<open>
  Modelled from the spec: "any inline node found directly under Document is wrapped in an
  implicit Paragraph" (section 4.5), with its warning.
\<close>

definition wrap :: "node \<Rightarrow> node" where
  "wrap n = (if is_inline (kind n) then Node Paragraph [] None [n] else n)"

text \<open>
  Modelled from the spec: the warning of that wrapping (the scenario of section 8 counts
  one normalization warning for one wrapped node); the restorer's warnings are not in the
  source files.
\<close>

definition wrap_warnings :: "node \<Rightarrow> warning list" where
  "wrap_warnings n = (if is_inline (kind n) then [ImplicitParagraph (kind n)] else [])"

text \<open>
  Modelled from the spec: "any required field absent on a kind" (section 4.5), the
  required fields of the kind that the node's field list does not name.
\<close>

definition missing :: "kind \<Rightarrow> (field \<times> fval) list \<Rightarrow> field list" where
  "missing k fs = filter (\<lambda>f. map_of fs f = None) (required_fields k)"

text \<open>
  Modelled from the spec: the fields of a node after the filling of section 4.5, the
  fields it had followed by the default of each required field it lacked.
\<close>

definition fill_fields ::
  "(kind \<Rightarrow> field \<Rightarrow> fval) \<Rightarrow> kind \<Rightarrow> (field \<times> fval) list \<Rightarrow> (field \<times> fval) list" where
  "fill_fields dflt k fs = fs @ map (\<lambda>f. (f, default_value dflt k f)) (missing k fs)"

text \<open>
  Modelled from the spec: the filling of section 4.5 on a node and every node under it.
\<close>

fun fill :: "(kind \<Rightarrow> field \<Rightarrow> fval) \<Rightarrow> node \<Rightarrow> node" where
  "fill dflt (Node k fs i cs) = Node k (fill_fields dflt k fs) i (map (fill dflt) cs)"

text \<open>
  Modelled from the spec: the warnings of that filling, one for each field filled
  ("and a warning is emitted", section 4.5), the node's own before its children's.
\<close>

fun fill_warnings :: "node \<Rightarrow> warning list" where
  "fill_warnings (Node k fs i cs) =
     map (DefaultFilled k) (missing k fs) @ concat (map fill_warnings cs)"

subsection \<open>Derived fields\<close>

text \<open>
  Restoration "re-derives any fields that the Node Tree computes from children (e.g., a
  Table's column count from its header row) rather than trusting caller-supplied values"
  (section 4.5). The header row is the first child of the table; its cells are its
  children.

  Modelled from the spec: the write of a computed field, which replaces the value the
  node has for the field or adds the field.
\<close>

fun set_field :: "field \<Rightarrow> fval \<Rightarrow> (field \<times> fval) list \<Rightarrow> (field \<times> fval) list" where
  "set_field f v [] = [(f, v)]"
| "set_field f v ((g, w) # fs) = (if g = f then (f, v) # fs else (g, w) # set_field f v fs)"

text \<open>
  Modelled from the spec: "a Table's column count from its header row" (section 4.5), on
  the children of a table; a table without rows has no columns.
\<close>

fun column_count :: "node list \<Rightarrow> nat" where
  "column_count [] = 0"
| "column_count (header # body) = length (children header)"

text \<open>
  Modelled from the spec: the second step of section 4.5 on a node and every node under
  it; the computed value replaces a value the caller supplied.
\<close>

fun derive :: "node \<Rightarrow> node" where
  "derive (Node k fs i cs) =
     (let cs' = map derive cs
      in Node k (if k = Table then set_field Columns (Num (column_count cs')) fs else fs) i cs')"

subsection \<open>Restore\<close>

text \<open>
  Modelled from the spec: the restoration of one submitted node (section 4.5), first the
  normalization pass (the node is wrapped if it is inline, then missing fields are
  filled), then the derived fields. Section 4.5 names these repairs and the model makes
  no other.
\<close>

definition restore_node :: "(kind \<Rightarrow> field \<Rightarrow> fval) \<Rightarrow> node \<Rightarrow> node" where
  "restore_node dflt n = derive (fill dflt (wrap n))"

text \<open>
  Modelled from the spec: \<open>restore\<close> itself (section 4.5), which is not in the source
  files. The tree is the Document over the restored nodes; the warnings are those of
  each node in order, the wrapping before the fillings.
\<close>

definition restore :: "(kind \<Rightarrow> field \<Rightarrow> fval) \<Rightarrow> node list \<Rightarrow> result" where
  "restore dflt nodes =
     \<lparr>tree = Node Document [] None (map (restore_node dflt) nodes),
      warnings = concat (map (\<lambda>n. wrap_warnings n @ fill_warnings (wrap n)) nodes)\<rparr>"

text \<open>
  The properties below speak of a node that lacks no required field, anywhere under it,
  and of the number of required fields a node and the nodes under it lack.
\<close>

fun complete :: "node \<Rightarrow> bool" where
  "complete (Node k fs i cs) = (missing k fs = [] \<and> list_all complete cs)"


section \<open>Properties of the store\<close>

lemma on_conflict_update_nonempty: "on_conflict_update \<noteq> []"
  by (simp add: on_conflict_update_def)

lemma insert_row_on_conflict_update:
  "insert_row rows r on_conflict_update =
     Inr (if has_pk rows r
          then map (\<lambda>s. if same_pk r s then s\<lparr>col_value := col_value r\<rparr> else s) rows
          else rows @ [r])"
  by (simp add: insert_row_def on_conflict_update_nonempty)

lemma ExecContext_Insert_user_setting:
  "ExecContext d
     (Insert ''user_setting'' [''user_id'', ''key'', ''value'']
        [SqlInt u, SqlText k, SqlText v] suffix) =
     (case failure d of
        Some f \<Rightarrow> Inl (driver_error f)
      | None \<Rightarrow>
          (case insert_row (user_setting d)
                  \<lparr>col_user_id = u, col_key = k, col_value = v\<rparr> suffix of
             Inl e \<Rightarrow> Inl e
           | Inr rows \<Rightarrow> Inr (d\<lparr>user_setting := rows\<rparr>)))"
  by (simp split: option.splits)

lemma QueryContext_Select_user_setting:
  "QueryContext d (Select [''user_id'', ''key'', ''value''] ''user_setting'' conds) =
     (case failure d of
        Some f \<Rightarrow> Inl (driver_error f)
      | None \<Rightarrow> Inr (filter (\<lambda>r. list_all (\<lambda>c. holds c r) conds) (user_setting d)))"
  by (simp split: option.splits)

text \<open>
  A plain INSERT of a row whose primary key is already stored violates the key: the call
  returns the error and the table is as it was.
\<close>

lemma UpsertUserSetting_existing:
  "failure d = None \<Longrightarrow>
   has_pk (user_setting d)
     \<lparr>col_user_id = us_UserID u, col_key = us_Key u, col_value = us_Value u\<rparr> \<Longrightarrow>
   UpsertUserSetting d u = (Inl pq_unique_violation, d)"
  by (simp add: UpsertUserSetting_def ExecContext_Insert_user_setting insert_row_def
        del: ExecContext.simps)

text \<open>
  C7. \<open>UpsertUserSetting\<close> on a pair \<open>(user_id, key)\<close> that already has a row: user 1
  has the setting \<open>locale = en\<close> and the call is to store \<open>locale = zh\<close>. The call returns
  the unique-key violation and the stored value is still \<open>en\<close>: the statement carries no
  ON CONFLICT clause, so it does not replace the value.
\<close>

theorem UpsertUserSetting_duplicate_key_fails:
  "UpsertUserSetting
     \<lparr>user_setting = [\<lparr>col_user_id = 1, col_key = ''locale'', col_value = ''en''\<rparr>],
      failure = None\<rparr>
     \<lparr>us_UserID = 1, us_Key = ''locale'', us_Value = ''zh''\<rparr>
   = (Inl pq_unique_violation,
      \<lparr>user_setting = [\<lparr>col_user_id = 1, col_key = ''locale'', col_value = ''en''\<rparr>],
       failure = None\<rparr>)"
  by (simp add: UpsertUserSetting_def ExecContext_Insert_user_setting insert_row_def
        has_pk_def same_pk_def del: ExecContext.simps)

text \<open>
  After that call \<open>ListUserSettings\<close> still returns the old value for the pair.
\<close>

lemma ListUserSettings_after_duplicate_key:
  "ListUserSettings
     (snd (UpsertUserSetting
             \<lparr>user_setting = [\<lparr>col_user_id = 1, col_key = ''locale'', col_value = ''en''\<rparr>],
              failure = None\<rparr>
             \<lparr>us_UserID = 1, us_Key = ''locale'', us_Value = ''zh''\<rparr>))
     \<lparr>fus_Key = ''locale'', fus_UserID = Some 1\<rparr>
   = Inr [\<lparr>us_UserID = 1, us_Key = ''locale'', us_Value = ''en''\<rparr>]"
  by (simp add: UpsertUserSetting_def ExecContext_Insert_user_setting insert_row_def
        has_pk_def same_pk_def ListUserSettings_def QueryContext_Select_user_setting
        del: ExecContext.simps QueryContext.simps)

text \<open>On a pair that has no row yet the plain INSERT stores the setting.\<close>

lemma UpsertUserSetting_new:
  "failure d = None \<Longrightarrow>
   \<not> has_pk (user_setting d)
       \<lparr>col_user_id = us_UserID u, col_key = us_Key u, col_value = us_Value u\<rparr> \<Longrightarrow>
   UpsertUserSetting d u =
     (Inr u,
      d\<lparr>user_setting := user_setting d @
           [\<lparr>col_user_id = us_UserID u, col_key = us_Key u, col_value = us_Value u\<rparr>]\<rparr>)"
  by (simp add: UpsertUserSetting_def ExecContext_Insert_user_setting insert_row_def
        del: ExecContext.simps)

text \<open>
  The sibling \<open>UpsertUserSettingV1\<close> carries the clause: on a stored pair it succeeds,
  the rows of that pair take the new value and no row is added.
\<close>

lemma UpsertUserSettingV1_existing:
  assumes "failure d = None"
    and "pb_Key u = USER_SETTING_ACCESS_TOKENS pb"
    and "protojson_Marshal pb (GetAccessTokens u) = Inr v"
    and "has_pk (user_setting d)
           \<lparr>col_user_id = pb_UserId u, col_key = UserSettingKey_String pb (pb_Key u),
              col_value = v\<rparr>"
  shows "UpsertUserSettingV1 pb d u =
           (Inr u,
            d\<lparr>user_setting :=
                 map (\<lambda>s. if pb_UserId u = col_user_id s
                               \<and> UserSettingKey_String pb (pb_Key u) = col_key s
                            then s\<lparr>col_value := v\<rparr> else s) (user_setting d)\<rparr>)"
  using assms
  by (simp add: UpsertUserSettingV1_def ExecContext_Insert_user_setting
        insert_row_on_conflict_update same_pk_def del: ExecContext.simps)

lemma scan_rows_V1_keys:
  "scan_rows_V1 pb rows acc = Inr xs \<Longrightarrow>
   \<forall>s\<in>set acc. pb_Key s = USER_SETTING_ACCESS_TOKENS pb \<Longrightarrow>
   \<forall>s\<in>set xs. pb_Key s = USER_SETTING_ACCESS_TOKENS pb"
proof (induction rows arbitrary: acc)
  case Nil
  then show ?case by simp
next
  case (Cons r rows)
  show ?case
  proof (cases "UserSettingKey_value pb (col_key r) = USER_SETTING_ACCESS_TOKENS pb")
    case False
    with Cons.prems(1) have "scan_rows_V1 pb rows acc = Inr xs"
      by (simp add: Let_def)
    then show ?thesis
      using Cons.IH Cons.prems(2) by blast
  next
    case True
    show ?thesis
    proof (cases "protojson_Unmarshal pb (col_value r)")
      case (Inl err)
      with True Cons.prems(1) show ?thesis
        by (simp add: Let_def)
    next
      case (Inr a)
      let ?acc = "acc @ [\<lparr>pb_UserId = col_user_id r,
                          pb_Key = UserSettingKey_value pb (col_key r),
                          pb_Value = Some (UserSetting_AccessTokens a)\<rparr>]"
      from True Inr Cons.prems(1) have "scan_rows_V1 pb rows ?acc = Inr xs"
        by (simp add: Let_def)
      moreover from True Cons.prems(2)
      have "\<forall>s\<in>set ?acc. pb_Key s = USER_SETTING_ACCESS_TOKENS pb"
        by simp
      ultimately show ?thesis
        using Cons.IH by blast
    qed
  qed
qed

lemma scan_rows_V1_filter:
  "scan_rows_V1 pb
     (filter (\<lambda>r. UserSettingKey_value pb (col_key r) = USER_SETTING_ACCESS_TOKENS pb) rows)
     acc
   = scan_rows_V1 pb rows acc"
proof (induction rows arbitrary: acc)
  case Nil
  show ?case by simp
next
  case (Cons r rows)
  show ?case
  proof (cases "UserSettingKey_value pb (col_key r) = USER_SETTING_ACCESS_TOKENS pb")
    case False
    then show ?thesis
      by (simp add: Let_def Cons.IH)
  next
    case True
    then show ?thesis
      by (cases "protojson_Unmarshal pb (col_value r)") (simp_all add: Let_def Cons.IH)
  qed
qed

text \<open>
  C10. \<open>UpsertUserSettingV1\<close> answers \<open>invalid user setting key\<close> to every setting whose
  key is not \<open>USER_SETTING_ACCESS_TOKENS\<close> and leaves the database as it was; with that
  key, a value that marshals and a working connection it returns the setting it was given.
  Every setting \<open>ListUserSettingsV1\<close> returns has the key \<open>USER_SETTING_ACCESS_TOKENS\<close>,
  and rows with another key are skipped silently: the result is the same as on the table
  without them.
\<close>

theorem UserSettingV1_access_tokens_only:
  "(pb_Key upsert \<noteq> USER_SETTING_ACCESS_TOKENS pb \<longrightarrow>
      UpsertUserSettingV1 pb d upsert = (Inl (errors_New ''invalid user setting key''), d))
   \<and> (pb_Key upsert = USER_SETTING_ACCESS_TOKENS pb \<longrightarrow>
        protojson_Marshal pb (GetAccessTokens upsert) = Inr v \<longrightarrow> failure d = None \<longrightarrow>
        fst (UpsertUserSettingV1 pb d upsert) = Inr upsert)
   \<and> (ListUserSettingsV1 pb d fnd = Inr xs \<longrightarrow>
        (\<forall>s\<in>set xs. pb_Key s = USER_SETTING_ACCESS_TOKENS pb))
   \<and> ListUserSettingsV1 pb d fnd =
       ListUserSettingsV1 pb
         (d\<lparr>user_setting :=
              filter (\<lambda>r. UserSettingKey_value pb (col_key r) = USER_SETTING_ACCESS_TOKENS pb)
                (user_setting d)\<rparr>) fnd"
proof (intro conjI impI)
  assume "pb_Key upsert \<noteq> USER_SETTING_ACCESS_TOKENS pb"
  then show "UpsertUserSettingV1 pb d upsert = (Inl (errors_New ''invalid user setting key''), d)"
    by (simp add: UpsertUserSettingV1_def)
next
  assume "pb_Key upsert = USER_SETTING_ACCESS_TOKENS pb"
    and "protojson_Marshal pb (GetAccessTokens upsert) = Inr v" and "failure d = None"
  then show "fst (UpsertUserSettingV1 pb d upsert) = Inr upsert"
    by (simp add: UpsertUserSettingV1_def ExecContext_Insert_user_setting
          insert_row_on_conflict_update del: ExecContext.simps)
next
  assume "ListUserSettingsV1 pb d fnd = Inr xs"
  then show "\<forall>s\<in>set xs. pb_Key s = USER_SETTING_ACCESS_TOKENS pb"
    using scan_rows_V1_keys [of pb _ "[]" xs]
    by (simp add: ListUserSettingsV1_def QueryContext_Select_user_setting Let_def
          del: QueryContext.simps split: sum.splits option.splits if_splits)
next
  let ?P = "\<lambda>r. UserSettingKey_value pb (col_key r) = USER_SETTING_ACCESS_TOKENS pb"
  have skip: "scan_rows_V1 pb (filter Q (filter ?P (user_setting d))) [] =
              scan_rows_V1 pb (filter Q (user_setting d)) []" for Q
  proof -
    have "filter Q (filter ?P (user_setting d)) = filter ?P (filter Q (user_setting d))"
      by (simp add: conj_commute)
    then show ?thesis
      by (simp only: scan_rows_V1_filter)
  qed
  then show "ListUserSettingsV1 pb d fnd =
       ListUserSettingsV1 pb (d\<lparr>user_setting := filter ?P (user_setting d)\<rparr>) fnd"
    by (simp add: ListUserSettingsV1_def QueryContext_Select_user_setting Let_def
          del: QueryContext.simps split: option.splits)
qed

theorem UserSettingV1_access_tokens_only_witness:
  "let pb = \<lparr>USER_SETTING_KEY_UNSPECIFIED = 0 :: nat, USER_SETTING_ACCESS_TOKENS = 1,
             UserSettingKey_String =
               (\<lambda>k. if k = 1 then ''USER_SETTING_ACCESS_TOKENS''
                    else ''USER_SETTING_KEY_UNSPECIFIED''),
             UserSettingKey_value = (\<lambda>s. if s = ''USER_SETTING_ACCESS_TOKENS'' then 1 else 0),
             protojson_Marshal = (\<lambda>a. case a of None \<Rightarrow> Inr ''{}'' | Some t \<Rightarrow> Inr t),
             protojson_Unmarshal = Inr\<rparr>;
       d = \<lparr>user_setting =
              [\<lparr>col_user_id = 7, col_key = ''USER_SETTING_ACCESS_TOKENS'', col_value = ''{}''\<rparr>,
               \<lparr>col_user_id = 7, col_key = ''USER_SETTING_LOCALE'', col_value = ''en''\<rparr>],
            failure = None\<rparr>;
       other = \<lparr>pb_UserId = 7, pb_Key = 0, pb_Value = None\<rparr>;
       tokens = \<lparr>pb_UserId = 7, pb_Key = 1, pb_Value = Some (UserSetting_AccessTokens ''[t]'')\<rparr>
   in UpsertUserSettingV1 pb d other = (Inl (errors_New ''invalid user setting key''), d)
    \<and> fst (UpsertUserSettingV1 pb d tokens) = Inr tokens
    \<and> ListUserSettingsV1 pb d \<lparr>fv1_Key = 0, fv1_UserID = Some 7\<rparr> =
        Inr [\<lparr>pb_UserId = 7, pb_Key = 1, pb_Value = Some (UserSetting_AccessTokens ''{}'')\<rparr>]
    \<and> pb_Key \<lparr>pb_UserId = 7, pb_Key = 1 :: nat,
                pb_Value = Some (UserSetting_AccessTokens ''{}'')\<rparr>
        = USER_SETTING_ACCESS_TOKENS pb"
proof -
  let ?pb = "\<lparr>USER_SETTING_KEY_UNSPECIFIED = 0 :: nat, USER_SETTING_ACCESS_TOKENS = 1,
             UserSettingKey_String =
               (\<lambda>k. if k = 1 then ''USER_SETTING_ACCESS_TOKENS''
                    else ''USER_SETTING_KEY_UNSPECIFIED''),
             UserSettingKey_value = (\<lambda>s. if s = ''USER_SETTING_ACCESS_TOKENS'' then 1 else 0),
             protojson_Marshal = (\<lambda>a. case a of None \<Rightarrow> Inr ''{}'' | Some t \<Rightarrow> Inr t),
             protojson_Unmarshal = Inr\<rparr> :: (nat, string) storepb"
  let ?d = "\<lparr>user_setting =
              [\<lparr>col_user_id = 7, col_key = ''USER_SETTING_ACCESS_TOKENS'', col_value = ''{}''\<rparr>,
               \<lparr>col_user_id = 7, col_key = ''USER_SETTING_LOCALE'', col_value = ''en''\<rparr>],
            failure = None\<rparr>"
  let ?other = "\<lparr>pb_UserId = 7, pb_Key = 0, pb_Value = None\<rparr> :: (nat, string) UserSettingV1"
  let ?tokens = "\<lparr>pb_UserId = 7, pb_Key = 1, pb_Value = Some (UserSetting_AccessTokens ''[t]'')\<rparr>
                   :: (nat, string) UserSettingV1"
  let ?fnd = "\<lparr>fv1_Key = 0 :: nat, fv1_UserID = Some 7\<rparr>"
  let ?xs = "[\<lparr>pb_UserId = 7, pb_Key = 1 :: nat,
               pb_Value = Some (UserSetting_AccessTokens ''{}'')\<rparr>]"
  have listed: "ListUserSettingsV1 ?pb ?d ?fnd = Inr ?xs"
    by (simp add: ListUserSettingsV1_def QueryContext_Select_user_setting Let_def
          del: QueryContext.simps)
  show ?thesis
    using UserSettingV1_access_tokens_only [of ?other ?pb ?d "''{}''" ?fnd ?xs]
      UserSettingV1_access_tokens_only [of ?tokens ?pb ?d "''[t]''" ?fnd ?xs] listed
    by (simp add: Let_def)
qed

section \<open>Properties of the gateway\<close>



lemma pattern_ParseMarkdown:
  "pattern_MarkdownService_ParseMarkdown_0 =
     Some \<lparr>pat_ops = [(2, 0), (2, 1), (2, 2)], pat_pool = [''api'', ''v1'', ''markdown''],
           pat_verb = ''parse''\<rparr>"
  by (simp add: pattern_MarkdownService_ParseMarkdown_0_def NewPattern_def OpLitPush_def)

lemma pattern_RestoreMarkdownNodes:
  "pattern_MarkdownService_RestoreMarkdownNodes_0 =
     Some \<lparr>pat_ops = [(2, 0), (2, 1), (2, 2), (2, 3)],
           pat_pool = [''api'', ''v1'', ''markdown'', ''node''], pat_verb = ''restore''\<rparr>"
  by (simp add: pattern_MarkdownService_RestoreMarkdownNodes_0_def NewPattern_def OpLitPush_def)

lemma pattern_StringifyMarkdownNodes:
  "pattern_MarkdownService_StringifyMarkdownNodes_0 =
     Some \<lparr>pat_ops = [(2, 0), (2, 1), (2, 2), (2, 3)],
           pat_pool = [''api'', ''v1'', ''markdown'', ''node''], pat_verb = ''stringify''\<rparr>"
  by (simp add: pattern_MarkdownService_StringifyMarkdownNodes_0_def NewPattern_def OpLitPush_def)

lemma pattern_GetLinkMetadata:
  "pattern_MarkdownService_GetLinkMetadata_0 =
     Some \<lparr>pat_ops = [(2, 0), (2, 1), (2, 2), (2, 3)],
           pat_pool = [''api'', ''v1'', ''markdown'', ''link''], pat_verb = ''metadata''\<rparr>"
  by (simp add: pattern_MarkdownService_GetLinkMetadata_0_def NewPattern_def OpLitPush_def)

lemmas patterns = pattern_ParseMarkdown pattern_RestoreMarkdownNodes
  pattern_StringifyMarkdownNodes pattern_GetLinkMetadata

































text \<open>
  \<open>RegisterMarkdownServiceHandlerServer\<close> registers the same four methods and paths, with
  the \<open>local_\<close> request functions.
\<close>

lemma RegisterMarkdownServiceHandlerServer_routes:
  "map_option (map (\<lambda>h. (h_meth h, Pattern_String (h_pat h))))
     (RegisterMarkdownServiceHandlerServer rt [] server) =
   Some [(''POST'', Some ''/api/v1/markdown:parse''),
         (''POST'', Some ''/api/v1/markdown/node:restore''),
         (''POST'', Some ''/api/v1/markdown/node:stringify''),
         (''GET'', Some ''/api/v1/markdown/link:metadata'')]"
  by (simp add: RegisterMarkdownServiceHandlerServer_def patterns Handle_def
        Pattern_String_def http_MethodPost_def http_MethodGet_def)

section \<open>Properties of the restorer\<close>

lemma kind_fill [simp]: "kind (fill dflt n) = kind n"
  by (cases n) simp

lemma kind_derive [simp]: "kind (derive n) = kind n"
  by (cases n) (simp add: Let_def)


lemma children_derive: "children (derive n) = map derive (children n)"
  by (cases n) (simp add: Let_def)

lemma Paragraph_not_inline [simp]: "\<not> is_inline Paragraph"
  by (simp add: is_inline_def)

lemma kind_wrap_not_inline: "\<not> is_inline (kind (wrap n))"
  by (simp add: wrap_def)

lemma wrap_block: "\<not> is_inline (kind n) \<Longrightarrow> wrap n = n"
  by (simp add: wrap_def)

lemma map_of_set_field:
  "map_of (set_field f v fs) g = (if g = f then Some v else map_of fs g)"
  by (induction fs) auto


lemma missing_fill_fields: "missing k (fill_fields dflt k fs) = []"
proof -
  have "map_of (fill_fields dflt k fs) f \<noteq> None" if "f \<in> set (required_fields k)" for f
  proof (cases "map_of fs f")
    case None
    with that have "f \<in> set (missing k fs)"
      by (simp add: missing_def)
    then have "f \<in> fst ` set (map (\<lambda>f. (f, default_value dflt k f)) (missing k fs))"
      by (simp add: image_image)
    then have "map_of (map (\<lambda>f. (f, default_value dflt k f)) (missing k fs)) f \<noteq> None"
      by (metis map_of_eq_None_iff)
    with None show ?thesis
      by (auto simp: fill_fields_def map_add_def split: option.splits)
  next
    case (Some v)
    then show ?thesis
      by (simp add: fill_fields_def)
  qed
  then show ?thesis
    by (simp add: missing_def filter_empty_conv)
qed


lemma missing_set_field: "missing k fs = [] \<Longrightarrow> missing k (set_field f v fs) = []"
  by (simp add: missing_def filter_empty_conv map_of_set_field)

lemma complete_fill: "complete (fill dflt n)"
  by (induction n) (simp add: missing_fill_fields list_all_iff)


lemma fill_warnings_complete: "complete n \<Longrightarrow> fill_warnings n = []"
  by (induction n) (simp add: list_all_iff)

lemma complete_derive: "complete n \<Longrightarrow> complete (derive n)"
proof (induction n)
  case (Node k fs i cs)
  from Node.prems have fs: "missing k fs = []" and cs: "\<forall>c\<in>set cs. complete c"
    by (simp_all add: list_all_iff)
  from cs Node.IH have "\<forall>c\<in>set cs. complete (derive c)"
    by blast
  moreover have "missing k (set_field Columns v fs) = []" for v
    using fs by (rule missing_set_field)
  ultimately show ?case
    using fs by (auto simp: Let_def list_all_iff)
qed

lemma column_count_derive: "column_count (map derive cs) = column_count cs"
  by (cases cs) (simp_all add: children_derive)


lemma restore_node_block: "\<not> is_inline (kind (restore_node dflt n))"
  by (simp add: restore_node_def kind_wrap_not_inline)

lemma restore_node_complete: "complete (restore_node dflt n)"
  by (simp add: restore_node_def complete_derive complete_fill)



text \<open>The second restore has nothing left to normalize: it emits no warning.\<close>

lemma restore_again_no_warnings:
  "warnings (restore dflt (children (tree (restore dflt nodes)))) = []"
proof -
  have "wrap_warnings (restore_node dflt n) @ fill_warnings (wrap (restore_node dflt n)) = []"
    for n
    using restore_node_block [of dflt n] restore_node_complete [of dflt n]
    by (simp add: wrap_warnings_def wrap_block fill_warnings_complete)
  then show ?thesis
    by (simp add: restore_def)
qed














end
